theory Spec2Isabelle
  imports Main "HOL-Library.AList"
begin

section \<open>Python values\<close>

text \<open>
  The values that YAML documents, JSON claims and the Flask configuration hold.
  A dict is an association list in the order in which \<^verbatim>\<open>iteritems()\<close> yields
  its entries (Python 2 keeps that order fixed while the dict is not modified).
  Keys are strings. Floats are left out.
\<close>

datatype pyval =
    PNone
  | PBool bool
  | PInt int
  | PStr string
  | PList "pyval list"
  | PDict "(string \<times> pyval) list"

text \<open>Truthiness, as \<^verbatim>\<open>if v:\<close> and \<^verbatim>\<open>not v\<close> test it.\<close>

fun truthy :: "pyval \<Rightarrow> bool" where
  "truthy PNone = False"
| "truthy (PBool b) = b"
| "truthy (PInt n) = (n \<noteq> 0)"
| "truthy (PStr s) = (s \<noteq> [])"
| "truthy (PList xs) = (xs \<noteq> [])"
| "truthy (PDict kvs) = (kvs \<noteq> [])"

text \<open>
  Python's \<^verbatim>\<open>==\<close>: a bool equals the integer 0 or 1, lists are compared
  element by element, dicts entry by entry whatever their order.
\<close>

fun py_eq :: "pyval \<Rightarrow> pyval \<Rightarrow> bool" where
  "py_eq PNone PNone = True"
| "py_eq (PBool a) (PBool b) = (a = b)"
| "py_eq (PBool a) (PInt n) = (n = (if a then 1 else 0))"
| "py_eq (PInt n) (PBool a) = (n = (if a then 1 else 0))"
| "py_eq (PInt m) (PInt n) = (m = n)"
| "py_eq (PStr s) (PStr t) = (s = t)"
| "py_eq (PList xs) (PList ys) = list_all2 py_eq xs ys"
| "py_eq (PDict kvs) (PDict kvs') =
     (length kvs = length kvs' \<and>
      list_all (\<lambda>(k, v). case map_of kvs' k of None \<Rightarrow> False | Some v' \<Rightarrow> py_eq v v') kvs)"
| "py_eq _ _ = False"

text \<open>\<^verbatim>\<open>d.get(key, default)\<close> on a dict held as a map.\<close>

definition dict_get :: "(string \<rightharpoonup> pyval) \<Rightarrow> string \<Rightarrow> pyval \<Rightarrow> pyval" where
  "dict_get d k dflt = (case d k of None \<Rightarrow> dflt | Some v \<Rightarrow> v)"

text \<open>Truthiness of a header or cookie value: \<^verbatim>\<open>None\<close> and \<^verbatim>\<open>''\<close> are falsy.\<close>

definition str_truthy :: "string option \<Rightarrow> bool" where
  "str_truthy v = (case v of None \<Rightarrow> False | Some s \<Rightarrow> s \<noteq> [])"

section \<open>Exceptions\<close>

text \<open>
  A message is either a literal or a format string with the arguments of its
  \<^verbatim>\<open>.format(...)\<close> call, \<^verbatim>\<open>Prefixed p m\<close> is \<^verbatim>\<open>p.format(str(e))\<close> for the message
  \<open>m\<close> of a caught exception \<open>e\<close>.
\<close>

datatype msg =
    Text string
  | Fmt string "pyval list"
  | Prefixed string msg

datatype error =
    UserError msg
  | TypeError msg
  | KeyError string
  | UnboundLocalError string
  | AttributeError string
  | JWTError msg
  | JWTPurposeError msg
  | InvalidTokenError msg
  | AuthutilsJWTError msg
  | TemplateError msg
  | ScannerError msg
  | YAMLError msg
  | OtherError msg

section \<open>The CSRF guard (\<^verbatim>\<open>fence/__init__.py\<close>, \<^verbatim>\<open>check_csrf\<close>)\<close>

text \<open>
  What the guard reads of a request. The header map is keyed by the names the code
  looks up (\<^verbatim>\<open>Authorization\<close>, \<^verbatim>\<open>x-csrf-token\<close>, \<^verbatim>\<open>referer\<close>).
\<close>

record request =
  req_method :: string
  headers :: "string \<rightharpoonup> string"
  cookies :: "string \<rightharpoonup> string"
  args :: "string \<rightharpoonup> string"

type_synonym session = "string \<rightharpoonup> pyval"
type_synonym config = "string \<rightharpoonup> pyval"

definition has_auth :: "request \<Rightarrow> bool" where
  "has_auth req = (headers req ''Authorization'' \<noteq> None)"

definition no_username :: "session \<Rightarrow> bool" where
  "no_username sess = (\<not> truthy (dict_get sess ''username'' PNone))"

definition csrf_enabled :: "config \<Rightarrow> bool" where
  "csrf_enabled cfg = truthy (dict_get cfg ''ENABLE_CSRF_PROTECTION'' (PBool True))"

text \<open>
  The four values that \<^verbatim>\<open>all([...])\<close> tests: the cookie, the header, their
  equality and the referer.
\<close>

definition csrf_pair_ok :: "request \<Rightarrow> bool" where
  "csrf_pair_ok req =
     (let csrf_header = headers req ''x-csrf-token'';
          csrf_cookie = cookies req ''csrftoken'';
          referer = headers req ''referer''
      in str_truthy csrf_cookie \<and> str_truthy csrf_header \<and> csrf_cookie = csrf_header
         \<and> str_truthy referer)"

text \<open>
  \<^verbatim>\<open>check_csrf\<close> returns \<^verbatim>\<open>None\<close> (here \<open>Inr ()\<close>) or raises. The debug line
  \<^verbatim>\<open>'HTTP REFERER ' + referer\<close> raises a \<^verbatim>\<open>TypeError\<close> when there is no referer
  header, before the comparison is reached.
\<close>

definition check_csrf :: "config \<Rightarrow> request \<Rightarrow> session \<Rightarrow> error + unit" where
  "check_csrf cfg req sess =
     (if has_auth req \<or> no_username sess then Inr ()
      else if \<not> csrf_enabled cfg then Inr ()
      else if req_method req \<noteq> ''GET'' then
        (case headers req ''referer'' of
           None \<Rightarrow> Inl (TypeError (Text ''cannot concatenate 'str' and 'NoneType' objects''))
         | Some r \<Rightarrow>
             if \<not> csrf_pair_ok req
             then Inl (UserError (Text ''CSRF verification failed. Request aborted''))
             else Inr ())
      else Inr ())"

text \<open>
  \<^verbatim>\<open>@app.before_request\<close>: Flask calls the guard before the view function, and a
  guard that raises keeps the view from running. A view is a function from the
  request and the session to a response and the session it leaves.
\<close>

definition before_request :: "config \<Rightarrow> (request \<Rightarrow> session \<Rightarrow> 'r \<times> session)
    \<Rightarrow> request \<Rightarrow> session \<Rightarrow> (error + 'r) \<times> session" where
  "before_request cfg view req sess =
     (case check_csrf cfg req sess of
        Inl e \<Rightarrow> (Inl e, sess)
      | Inr u \<Rightarrow> (case view req sess of (r, sess') \<Rightarrow> (Inr r, sess')))"

subsection \<open>Properties of the CSRF guard\<close>

text \<open>
  C10. The guard returns without raising, whatever the CSRF cookie and headers are,
  when the request has an Authorization header, or the session has no truthy
  username, or the method is GET, or ENABLE_CSRF_PROTECTION is configured falsy.
  Hence it raises only on a non-GET request with a username in the session, no
  Authorization header and the protection enabled.
\<close>

theorem check_csrf_skips:
  "(has_auth req \<or> no_username sess \<or> req_method req = ''GET'' \<or> \<not> csrf_enabled cfg
      \<longrightarrow> check_csrf cfg req sess = Inr ())
   \<and> (check_csrf cfg req sess \<noteq> Inr ()
      \<longrightarrow> req_method req \<noteq> ''GET'' \<and> \<not> has_auth req \<and> \<not> no_username sess \<and> csrf_enabled cfg)"
  by (auto simp: check_csrf_def)

theorem check_csrf_skips_witness:
  "has_auth \<lparr>req_method = ''POST'', headers = [''Authorization'' \<mapsto> ''Bearer t''],
             cookies = Map.empty, args = Map.empty\<rparr>
   \<and> check_csrf Map.empty
        \<lparr>req_method = ''POST'', headers = [''Authorization'' \<mapsto> ''Bearer t''],
         cookies = Map.empty, args = Map.empty\<rparr>
        [''username'' \<mapsto> PStr ''alice''] = Inr ()"
proof -
  let ?req = "\<lparr>req_method = ''POST'', headers = [''Authorization'' \<mapsto> ''Bearer t''],
               cookies = Map.empty, args = Map.empty\<rparr>"
  have h: "has_auth ?req" by (simp add: has_auth_def)
  from check_csrf_skips [of ?req "[''username'' \<mapsto> PStr ''alice'']" Map.empty] h
  show ?thesis by blast
qed

text \<open>
  C4, as the code has it. A non-GET request without an Authorization header is
  rejected when the session holds a username and the protection is enabled and the
  request does not present an equal, non-empty csrftoken cookie and x-csrf-token
  header together with a referer. The guard raises before the view runs, so the
  session is the one the request came with.
\<close>

theorem check_csrf_rejects:
  assumes "req_method req \<noteq> ''GET''" and "\<not> has_auth req"
    and "\<not> no_username sess" and "csrf_enabled cfg"
    and "\<not> csrf_pair_ok req"
  shows "\<exists>e. check_csrf cfg req sess = Inl e
           \<and> before_request cfg view req sess = (Inl e, sess)"
  using assms
  by (auto simp: check_csrf_def before_request_def csrf_pair_ok_def str_truthy_def
           split: option.splits)

theorem check_csrf_rejects_witness:
  "check_csrf Map.empty
     \<lparr>req_method = ''POST'', headers = [''referer'' \<mapsto> ''http://a/''],
      cookies = [''csrftoken'' \<mapsto> ''abc''], args = Map.empty\<rparr>
     [''username'' \<mapsto> PStr ''alice'']
   = Inl (UserError (Text ''CSRF verification failed. Request aborted''))"
proof -
  let ?req = "\<lparr>req_method = ''POST'', headers = [''referer'' \<mapsto> ''http://a/''],
               cookies = [''csrftoken'' \<mapsto> ''abc''], args = Map.empty\<rparr>"
  let ?sess = "[''username'' \<mapsto> PStr ''alice'']"
  have a: "req_method ?req \<noteq> ''GET''" by simp
  have b: "\<not> has_auth ?req" by (simp add: has_auth_def)
  have c: "\<not> no_username ?sess" by (simp add: no_username_def dict_get_def)
  have d: "csrf_enabled Map.empty" by (simp add: csrf_enabled_def dict_get_def)
  have e: "\<not> csrf_pair_ok ?req" by (simp add: csrf_pair_ok_def str_truthy_def)
  from check_csrf_rejects [OF a b c d e, of "\<lambda>r s. ((), s)"]
  obtain x where "check_csrf Map.empty ?req ?sess = Inl x" by blast
  moreover have "check_csrf Map.empty ?req ?sess
      = Inl (UserError (Text ''CSRF verification failed. Request aborted''))"
    by (simp add: check_csrf_def has_auth_def no_username_def csrf_enabled_def
          dict_get_def csrf_pair_ok_def str_truthy_def)
  ultimately show ?thesis by simp
qed

text \<open>
  C4 as stated fails: a POST without an Authorization header, without a CSRF cookie
  or header and without a referer passes the guard when the session has no
  username.
\<close>

theorem check_csrf_anonymous_counterexample:
  "check_csrf Map.empty
     \<lparr>req_method = ''POST'', headers = Map.empty, cookies = Map.empty, args = Map.empty\<rparr>
     Map.empty = Inr ()
   \<and> \<not> csrf_pair_ok
     \<lparr>req_method = ''POST'', headers = Map.empty, cookies = Map.empty, args = Map.empty\<rparr>"
  by (simp add: check_csrf_def has_auth_def no_username_def dict_get_def
        csrf_pair_ok_def str_truthy_def)

section \<open>The logout endpoint (\<^verbatim>\<open>fence/__init__.py\<close>, \<^verbatim>\<open>logout_endpoint\<close>)\<close>

text \<open>\<^verbatim>\<open>s.startswith(p)\<close>.\<close>

definition startswith :: "string \<Rightarrow> string \<Rightarrow> bool" where
  "startswith s p = (take (length p) s = p)"

text \<open>
  The endpoint computes \<^verbatim>\<open>next_url\<close> and hands it to \<^verbatim>\<open>logout\<close>; the model returns
  that \<^verbatim>\<open>next_url\<close>. \<^verbatim>\<open>build_redirect_url\<close> belongs to \<^verbatim>\<open>fence.auth\<close> and is a
  parameter \<open>bru\<close>. \<^verbatim>\<open>request.args.get('next', root)\<close> is the query argument, a
  string, or else the configured BASE_URL, which may be any value: calling
  \<^verbatim>\<open>startswith\<close> on one that is not a string raises \<^verbatim>\<open>AttributeError\<close>.
\<close>

definition logout_endpoint :: "(pyval \<Rightarrow> string \<Rightarrow> error + string) \<Rightarrow> config \<Rightarrow> request
    \<Rightarrow> error + string" where
  "logout_endpoint bru cfg req =
     (let root = dict_get cfg ''BASE_URL'' (PStr []);
          request_next = (case args req ''next'' of None \<Rightarrow> root | Some s \<Rightarrow> PStr s)
      in case request_next of
           PStr s \<Rightarrow>
             if startswith s ''https'' \<or> startswith s ''http'' then Inr s
             else bru (dict_get cfg ''ROOT_URL'' (PStr [])) s
         | _ \<Rightarrow> Inl (AttributeError ''startswith''))"

text \<open>
  Modelled from the spec: \<^verbatim>\<open>fence.auth.build_redirect_url\<close> is not among the sources;
  the spec speaks of a locally-built URL rooted at the broker's ROOT_URL, which is
  taken here as the root followed by the path.
\<close>

definition build_redirect_url :: "pyval \<Rightarrow> string \<Rightarrow> error + string" where
  "build_redirect_url hostname path =
     (case hostname of PStr h \<Rightarrow> Inr (h @ path) | _ \<Rightarrow> Inl (TypeError (Text ''hostname'')))"

text \<open>An absolute http or https URL, as the spec words it: a scheme, then \<^verbatim>\<open>://\<close>.\<close>

definition absolute_http_url :: "string \<Rightarrow> bool" where
  "absolute_http_url s = (startswith s ''http://'' \<or> startswith s ''https://'')"

subsection \<open>Properties of the logout endpoint\<close>

text \<open>
  The two tests of the guard amount to one: a value that begins with \<^verbatim>\<open>https\<close>
  begins with \<^verbatim>\<open>http\<close>. So the value looked at, the supplied next or else the
  configured BASE_URL, is the redirect target when it begins with the four
  characters \<^verbatim>\<open>http\<close>, and goes through \<^verbatim>\<open>build_redirect_url\<close> with the configured
  ROOT_URL otherwise.
\<close>

lemma startswith_https_http: "startswith s ''https'' \<Longrightarrow> startswith s ''http''"
proof -
  assume h: "startswith s ''https''"
  have e: "take 5 s = ''https''"
    using h by (simp add: startswith_def eval_nat_numeral)
  have "take 4 (take 5 s) = take 4 ''https''" by (simp only: e)
  then have "take 4 s = ''http''" by simp
  then show ?thesis by (simp add: startswith_def eval_nat_numeral)
qed

lemma logout_endpoint_prefix_test:
  "logout_endpoint bru cfg req =
     (case (case args req ''next'' of
              None \<Rightarrow> dict_get cfg ''BASE_URL'' (PStr [])
            | Some s \<Rightarrow> PStr s) of
        PStr s \<Rightarrow>
          if startswith s ''http'' then Inr s
          else bru (dict_get cfg ''ROOT_URL'' (PStr [])) s
      | PNone \<Rightarrow> Inl (AttributeError ''startswith'')
      | PBool b \<Rightarrow> Inl (AttributeError ''startswith'')
      | PInt n \<Rightarrow> Inl (AttributeError ''startswith'')
      | PList xs \<Rightarrow> Inl (AttributeError ''startswith'')
      | PDict d \<Rightarrow> Inl (AttributeError ''startswith''))"
  using startswith_https_http
  by (auto simp: logout_endpoint_def Let_def split: option.splits pyval.splits)

lemma logout_endpoint_relative_example:
  "logout_endpoint build_redirect_url
     [''BASE_URL'' \<mapsto> PStr ''https://a/user'', ''ROOT_URL'' \<mapsto> PStr ''https://a'']
     \<lparr>req_method = ''GET'', headers = Map.empty, cookies = Map.empty,
      args = [''next'' \<mapsto> ''/portal'']\<rparr>
   = Inr ''https://a/portal''"
  by (simp add: logout_endpoint_def startswith_def dict_get_def build_redirect_url_def)

text \<open>
  C9. Only an absolute http or https URL is to be honored as it is, any other
  supplied value is to be replaced by a URL built from ROOT_URL. The supplied value
  \<^verbatim>\<open>httpevil\<close> is no absolute http or https URL, and the endpoint redirects to it as
  it is: the guard tests the prefix \<^verbatim>\<open>http\<close>, not the scheme.
\<close>

theorem logout_endpoint_honours_http_prefix:
  "logout_endpoint build_redirect_url
     [''BASE_URL'' \<mapsto> PStr ''https://a/user'', ''ROOT_URL'' \<mapsto> PStr ''https://a'']
     \<lparr>req_method = ''GET'', headers = Map.empty, cookies = Map.empty,
      args = [''next'' \<mapsto> ''httpevil'']\<rparr>
   = Inr ''httpevil''
   \<and> \<not> absolute_http_url ''httpevil''"
  by (simp add: logout_endpoint_def startswith_def dict_get_def absolute_http_url_def)

section \<open>Merging a provided configuration into the default one\<close>

text \<open>
  \<^verbatim>\<open>Config._load_configuration_file\<close> (\<^verbatim>\<open>fence/config.py\<close>) and
  \<^verbatim>\<open>_load_configuration_files\<close> (\<^verbatim>\<open>fence/__init__.py\<close>) share these lines. The three
  dict comprehensions are filters; \<^verbatim>\<open>config.update(keys_to_update)\<close> stores each
  entry of \<^verbatim>\<open>keys_to_update\<close> in \<^verbatim>\<open>config\<close>.
\<close>

type_synonym pydict = "(string \<times> pyval) list"

definition has_key :: "pydict \<Rightarrow> string \<Rightarrow> bool" where
  "has_key d k = (k \<in> set (map fst d))"

definition dict_update :: "pydict \<Rightarrow> pydict \<Rightarrow> pydict" where
  "dict_update d other = fold (\<lambda>(k, v) acc. AList.update k v acc) other d"

definition common_keys :: "pydict \<Rightarrow> pydict \<Rightarrow> pydict" where
  "common_keys config provided_configurations =
     filter (\<lambda>(key, value). has_key provided_configurations key) config"

definition keys_to_update :: "pydict \<Rightarrow> pydict \<Rightarrow> pydict" where
  "keys_to_update config provided_configurations =
     filter (\<lambda>(key, value). has_key (common_keys config provided_configurations) key)
       provided_configurations"

definition unknown_keys :: "pydict \<Rightarrow> pydict \<Rightarrow> pydict" where
  "unknown_keys config provided_configurations =
     filter (\<lambda>(key, value). \<not> has_key (common_keys config provided_configurations) key)
       provided_configurations"

text \<open>
  The merged \<^verbatim>\<open>config\<close>, and the keys of the warning (\<^verbatim>\<open>None\<close> when
  \<^verbatim>\<open>unknown_keys\<close> is empty and nothing is logged).
\<close>

definition merge_configuration :: "pydict \<Rightarrow> pydict \<Rightarrow> pydict \<times> string list option" where
  "merge_configuration config provided_configurations =
     (let unknown = unknown_keys config provided_configurations
      in (dict_update config (keys_to_update config provided_configurations),
          if unknown \<noteq> [] then Some (map fst unknown) else None))"

text \<open>\<^verbatim>\<open>_load_configuration_files(app, ...)\<close>: the merged dict goes into \<^verbatim>\<open>app.config\<close>.\<close>

definition load_configuration_files :: "pydict \<Rightarrow> pydict \<Rightarrow> pydict
    \<Rightarrow> pydict \<times> string list option" where
  "load_configuration_files app_config config provided_configurations =
     (case merge_configuration config provided_configurations of
        (merged, warning) \<Rightarrow> (dict_update app_config merged, warning))"

subsection \<open>Properties of the merge\<close>

lemma map_of_dict_update:
  "distinct (map fst other) \<Longrightarrow> map_of (dict_update d other) = map_of d ++ map_of other"
proof (induction other arbitrary: d)
  case Nil
  then show ?case by (simp add: dict_update_def)
next
  case (Cons kv other)
  obtain k v where kv: "kv = (k, v)" by (cases kv)
  from Cons.prems kv have nk: "k \<notin> fst ` set other" and d: "distinct (map fst other)"
    by auto
  have "map_of (dict_update d (kv # other)) = map_of (dict_update (AList.update k v d) other)"
    by (simp add: dict_update_def kv)
  also have "\<dots> = (map_of d)(k \<mapsto> v) ++ map_of other"
    by (simp only: Cons.IH [OF d] update_conv')
  also have "\<dots> = map_of d ++ map_of (kv # other)"
  proof (rule ext)
    fix x
    show "((map_of d)(k \<mapsto> v) ++ map_of other) x = (map_of d ++ map_of (kv # other)) x"
    proof (cases "x = k")
      case True
      with nk have "map_of other x = None" by (simp add: map_of_eq_None_iff)
      with True show ?thesis by (simp add: map_add_def kv)
    next
      case False
      then show ?thesis by (simp add: map_add_def kv split: option.splits)
    qed
  qed
  finally show ?case .
qed

lemma map_of_filter_key:
  "map_of (filter (\<lambda>(k, v). P k) xs) x = (if P x then map_of xs x else None)"
  by (induction xs) auto

lemma has_key_common_keys:
  "has_key (common_keys config provided) k \<longleftrightarrow> has_key config k \<and> has_key provided k"
  unfolding has_key_def common_keys_def by force

lemma has_key_map_of: "has_key d k \<longleftrightarrow> map_of d k \<noteq> None"
  by (simp add: has_key_def map_of_eq_None_iff)

text \<open>
  C6, as the code has it. Only top-level keys are compared. A top-level key of
  the default document takes the provided value when the provided document has that
  key, as a whole, nested mapping included; a top-level key of the provided document
  that the default document lacks is left out of the merged configuration and named
  in the warning.
\<close>

theorem merge_configuration_top_level:
  assumes "distinct (map fst provided)"
  shows "map_of (fst (merge_configuration config provided)) k =
           (if has_key config k \<and> has_key provided k then map_of provided k
            else map_of config k)
         \<and> snd (merge_configuration config provided) =
           (let unknown = filter (\<lambda>key. \<not> has_key config key) (map fst provided)
            in if unknown \<noteq> [] then Some unknown else None)"
proof -
  have dk: "distinct (map fst (keys_to_update config provided))"
    using assms by (simp add: keys_to_update_def distinct_map_filter)
  have look: "map_of (keys_to_update config provided) k =
      (if has_key config k \<and> has_key provided k then map_of provided k else None)"
    unfolding keys_to_update_def
    by (simp add: map_of_filter_key has_key_common_keys)
  have one: "map_of (fst (merge_configuration config provided)) k =
           (if has_key config k \<and> has_key provided k then map_of provided k
            else map_of config k)"
    using look
    by (auto simp: merge_configuration_def Let_def map_of_dict_update [OF dk] map_add_def
          has_key_map_of split: option.splits)
  have unk: "map fst (unknown_keys config provided)
      = filter (\<lambda>key. \<not> has_key config key) (map fst provided)"
  proof -
    have "has_key (common_keys config provided) (fst kv) = has_key config (fst kv)"
      if "kv \<in> set provided" for kv
      using that by (auto simp: has_key_common_keys) (simp add: has_key_def)
    then have "filter (\<lambda>kv. \<not> has_key (common_keys config provided) (fst kv)) provided
        = filter (\<lambda>kv. \<not> has_key config (fst kv)) provided"
      by (intro filter_cong) auto
    then show ?thesis
      unfolding unknown_keys_def case_prod_beta by (simp add: filter_map o_def)
  qed
  have two: "snd (merge_configuration config provided) =
           (let unknown = filter (\<lambda>key. \<not> has_key config key) (map fst provided)
            in if unknown \<noteq> [] then Some unknown else None)"
    using unk by (auto simp: merge_configuration_def Let_def)
  from one two show ?thesis by simp
qed

theorem merge_configuration_top_level_witness:
  "map_of (fst (merge_configuration
       [(''BASE_URL'', PStr ''http://a''), (''DEBUG'', PBool False)]
       [(''DEBUG'', PBool True), (''EXTRA'', PInt 1)])) ''DEBUG'' = Some (PBool True)
   \<and> snd (merge_configuration
       [(''BASE_URL'', PStr ''http://a''), (''DEBUG'', PBool False)]
       [(''DEBUG'', PBool True), (''EXTRA'', PInt 1)]) = Some [''EXTRA'']"
proof -
  have d: "distinct (map fst [(''DEBUG'', PBool True), (''EXTRA'', PInt 1)])" by simp
  from merge_configuration_top_level [OF d,
      of "[(''BASE_URL'', PStr ''http://a''), (''DEBUG'', PBool False)]" "''DEBUG''"]
  show ?thesis by (simp add: has_key_def)
qed

text \<open>
  C6 as stated fails for nested keys: the key \<^verbatim>\<open>y\<close>, which only the provided
  document has under \<^verbatim>\<open>A\<close>, is in the merged configuration, the default's \<^verbatim>\<open>x\<close> is
  gone, and no warning is given.
\<close>

theorem merge_configuration_nested_counterexample:
  "merge_configuration
     [(''A'', PDict [(''x'', PInt 1)])]
     [(''A'', PDict [(''y'', PInt 2)])]
   = ([(''A'', PDict [(''y'', PInt 2)])], None)"
  by (simp add: merge_configuration_def unknown_keys_def keys_to_update_def
        common_keys_def has_key_def dict_update_def)

section \<open>Template rendering of a configuration (\<^verbatim>\<open>fence/config.py\<close>, \<^verbatim>\<open>nested_render\<close>)\<close>

text \<open>
  The three library calls of \<^verbatim>\<open>nested_render\<close> are parameters: \<^verbatim>\<open>str(cfg)\<close>,
  \<^verbatim>\<open>Template(s).render(**replacements)\<close> of jinja2 and \<^verbatim>\<open>yaml_load\<close> of PyYAML. Each
  returns a value or raises.
\<close>

record libs =
  py_str :: "pyval \<Rightarrow> error + string"
  template_render :: "string \<Rightarrow> (string \<rightharpoonup> pyval) \<Rightarrow> error + string"
  yaml_load :: "string \<Rightarrow> error + pyval"

type_synonym replacements = "string \<rightharpoonup> pyval"

text \<open>\<^verbatim>\<open>for old_cfg, value in cfg.iteritems(): replacements.pop(old_cfg, None)\<close>\<close>

definition pop_all :: "replacements \<Rightarrow> pydict \<Rightarrow> replacements" where
  "pop_all r cfg = fold (\<lambda>(old_cfg, value) acc. acc(old_cfg := None)) cfg r"

text \<open>\<^verbatim>\<open>replacements.update(cfg)\<close>\<close>

definition repl_update :: "replacements \<Rightarrow> pydict \<Rightarrow> replacements" where
  "repl_update r cfg = fold (\<lambda>(k, v) acc. acc(k \<mapsto> v)) cfg r"

text \<open>
  The inner \<^verbatim>\<open>try\<close>: the rendered text is parsed; on a \<^verbatim>\<open>ScannerError\<close> it is
  parsed again in double quotes. Any other exception leaves the function.
\<close>

definition reparse :: "libs \<Rightarrow> string \<Rightarrow> error + pyval" where
  "reparse L rendered_value =
     (case yaml_load L rendered_value of
        Inr v \<Rightarrow> Inr v
      | Inl (ScannerError m) \<Rightarrow> yaml_load L (''\"'' @ rendered_value @ ''\"'')
      | Inl e \<Rightarrow> Inl e)"

text \<open>
  The \<^verbatim>\<open>except AttributeError\<close> branch: what is not a dict is rendered when it is
  truthy, and parsed again; a falsy value is returned as it is.
\<close>

definition render_leaf :: "libs \<Rightarrow> pyval \<Rightarrow> replacements \<Rightarrow> error + pyval" where
  "render_leaf L cfg r =
     (if truthy cfg then
        (case py_str L cfg of
           Inl e \<Rightarrow> Inl e
         | Inr s \<Rightarrow>
            (case template_render L s r of
               Inl e \<Rightarrow> Inl e
             | Inr rendered_value \<Rightarrow> reparse L rendered_value))
      else Inr cfg)"

text \<open>
  \<^verbatim>\<open>nested_render\<close> returns the rendered value and leaves \<^verbatim>\<open>replacements\<close>
  changed; the model returns both. \<open>render_items\<close> is the \<^verbatim>\<open>for\<close> loop over
  \<^verbatim>\<open>cfg.iteritems()\<close>: its second argument is the whole \<^verbatim>\<open>cfg\<close>, its third the items
  still to visit. An \<^verbatim>\<open>AttributeError\<close> that comes out of the loop is caught by the
  same handler, which then renders the dict as a leaf.
\<close>

fun nested_render :: "libs \<Rightarrow> pyval \<Rightarrow> pydict \<Rightarrow> replacements
      \<Rightarrow> (error + pyval) \<times> replacements"
  and render_items :: "libs \<Rightarrow> pydict \<Rightarrow> pydict \<Rightarrow> pydict \<Rightarrow> replacements
      \<Rightarrow> (error + pydict) \<times> replacements" where
  "nested_render L (PDict cfg) fully_rendered_cfgs r =
     (case render_items L cfg cfg fully_rendered_cfgs r of
        (Inr rendered, r') \<Rightarrow> (Inr (PDict rendered), r')
      | (Inl (AttributeError m), r') \<Rightarrow> (render_leaf L (PDict cfg) r', r')
      | (Inl e, r') \<Rightarrow> (Inl e, r'))"
| "nested_render L PNone fully_rendered_cfgs r = (render_leaf L PNone r, r)"
| "nested_render L (PBool b) fully_rendered_cfgs r = (render_leaf L (PBool b) r, r)"
| "nested_render L (PInt n) fully_rendered_cfgs r = (render_leaf L (PInt n) r, r)"
| "nested_render L (PStr s) fully_rendered_cfgs r = (render_leaf L (PStr s) r, r)"
| "nested_render L (PList xs) fully_rendered_cfgs r = (render_leaf L (PList xs) r, r)"
| "render_items L cfg [] fully_rendered_cfgs r = (Inr fully_rendered_cfgs, r)"
| "render_items L cfg ((key, value) # rest) fully_rendered_cfgs r =
     (case nested_render L value [] (repl_update r cfg) of
        (Inl e, r') \<Rightarrow> (Inl e, r')
      | (Inr v, r') \<Rightarrow>
          render_items L cfg rest (AList.update key v fully_rendered_cfgs) (pop_all r' cfg))"

subsection \<open>A reference instance of the libraries\<close>

text \<open>
  For evaluating \<^verbatim>\<open>nested_render\<close> on concrete documents: the three libraries on
  a small fragment of their inputs, on which their behaviour is plain. Outside the
  fragment the instance answers \<open>not_modelled\<close>; no statement below rests on such an
  answer.
\<close>

definition not_modelled :: error where
  "not_modelled = OtherError (Text ''outside the modelled fragment'')"

definition letters :: "char set" where
  "letters = set ''abcdefghijklmnopqrstuvwxyzABCDEFGHIJKLMNOPQRSTUVWXYZ''"

definition digits :: "char set" where
  "digits = set ''0123456789''"

text \<open>\<^verbatim>\<open>str(v)\<close> of a string, a bool and \<^verbatim>\<open>None\<close>.\<close>

fun ref_str :: "pyval \<Rightarrow> error + string" where
  "ref_str (PStr s) = Inr s"
| "ref_str (PBool b) = Inr (if b then ''True'' else ''False'')"
| "ref_str PNone = Inr ''None''"
| "ref_str v = Inl not_modelled"

text \<open>
  jinja2 on templates of printable ASCII whose only markers are \<^verbatim>\<open>{{ name }}\<close>
  references to names that are not reserved: text is copied, a reference is
  replaced by the \<^verbatim>\<open>str\<close> of the variable's value, and by the empty string when
  the variable is undefined.
\<close>

definition strip_spaces :: "string \<Rightarrow> string" where
  "strip_spaces s = rev (dropWhile (\<lambda>c. c = CHR '' '') (rev (dropWhile (\<lambda>c. c = CHR '' '') s)))"

text \<open>
  Names that jinja2 does not look up in the variables alone: its literals and
  operators, \<^verbatim>\<open>self\<close> and the names of a template's own context, and its default
  globals, which an unbound reference resolves to. A reference to one of them is
  outside the fragment.
\<close>

definition reserved_names :: "string list" where
  "reserved_names =
     [''true'', ''false'', ''none'', ''True'', ''False'', ''None'',
      ''and'', ''or'', ''not'', ''in'', ''is'', ''if'', ''else'',
      ''self'', ''super'', ''loop'', ''caller'', ''varargs'', ''kwargs'',
      ''context'', ''environment'',
      ''range'', ''dict'', ''lipsum'', ''cycler'', ''joiner'', ''namespace'']"

definition is_identifier :: "string \<Rightarrow> bool" where
  "is_identifier n =
     (n \<noteq> [] \<and> hd n \<in> letters \<union> {CHR ''_''}
      \<and> list_all (\<lambda>c. c \<in> letters \<union> digits \<union> {CHR ''_''}) n
      \<and> n \<notin> set reserved_names)"

definition lookup_name :: "replacements \<Rightarrow> string \<Rightarrow> error + string" where
  "lookup_name r n =
     (let name = strip_spaces n
      in if is_identifier name
         then (case r name of None \<Rightarrow> Inr [] | Some v \<Rightarrow> ref_str v)
         else Inl not_modelled)"

definition emit :: "string \<Rightarrow> error + string \<Rightarrow> error + string" where
  "emit s res = (case res of Inl e \<Rightarrow> Inl e | Inr t \<Rightarrow> Inr (s @ t))"

datatype scan_state = InText | SeenBrace | InRef string | RefClosing string

fun jinja_scan :: "replacements \<Rightarrow> scan_state \<Rightarrow> string \<Rightarrow> error + string" where
  "jinja_scan r InText [] = Inr []"
| "jinja_scan r SeenBrace [] = Inr ''{''"
| "jinja_scan r (InRef n) [] = Inl (TemplateError (Text ''unexpected end of template''))"
| "jinja_scan r (RefClosing n) [] = Inl (TemplateError (Text ''unexpected end of template''))"
| "jinja_scan r InText (c # cs) =
     (if c = CHR ''{'' then jinja_scan r SeenBrace cs else emit [c] (jinja_scan r InText cs))"
| "jinja_scan r SeenBrace (c # cs) =
     (if c = CHR ''{'' then jinja_scan r (InRef []) cs
      else if c = CHR ''%'' \<or> c = CHR ''#'' then Inl not_modelled
      else emit [CHR ''{'', c] (jinja_scan r InText cs))"
| "jinja_scan r (InRef n) (c # cs) =
     (if c = CHR ''}'' then jinja_scan r (RefClosing n) cs
      else jinja_scan r (InRef (n @ [c])) cs)"
| "jinja_scan r (RefClosing n) (c # cs) =
     (if c = CHR ''}''
      then (case lookup_name r n of
              Inl e \<Rightarrow> Inl e
            | Inr s \<Rightarrow> emit s (jinja_scan r InText cs))
      else Inl not_modelled)"

definition printable :: "string \<Rightarrow> bool" where
  "printable s = list_all (\<lambda>c. 32 \<le> (of_char c :: nat) \<and> (of_char c :: nat) \<le> 126) s"

definition ref_render :: "string \<Rightarrow> replacements \<Rightarrow> error + string" where
  "ref_render s r = (if printable s then jinja_scan r InText s else Inl not_modelled)"

text \<open>
  PyYAML on one-line documents: the empty document is \<^verbatim>\<open>None\<close>; a decimal integer
  without sign or leading zero is that integer; the words of YAML 1.1 for the
  booleans and for null; a plain word of letters, digits and \<^verbatim>\<open>/ : . _ -\<close> that
  begins with a letter or a slash and does not end in a colon is that string; a
  double-quoted run of such characters (and of \<^verbatim>\<open>@\<close>) is the string between the
  quotes; a word that begins with \<^verbatim>\<open>@\<close> cannot start a token.
\<close>

definition word_chars :: "char set" where
  "word_chars = letters \<union> digits \<union> set ''/:._-''"

definition decimal :: "string \<Rightarrow> bool" where
  "decimal s = (s \<noteq> [] \<and> list_all (\<lambda>c. c \<in> digits) s \<and> (hd s \<noteq> CHR ''0'' \<or> length s = 1))"

definition decimal_value :: "string \<Rightarrow> nat" where
  "decimal_value s = foldl (\<lambda>a c. 10 * a + (of_char c - 48)) 0 s"

definition plain_word :: "string \<Rightarrow> bool" where
  "plain_word s =
     (s \<noteq> [] \<and> hd s \<in> letters \<union> {CHR ''/''} \<and> list_all (\<lambda>c. c \<in> word_chars) s
      \<and> last s \<noteq> CHR '':'')"

definition double_quoted :: "string \<Rightarrow> bool" where
  "double_quoted s =
     (2 \<le> length s \<and> hd s = CHR 0x22 \<and> last s = CHR 0x22
      \<and> list_all (\<lambda>c. c \<in> word_chars \<union> {CHR ''@''}) (butlast (tl s)))"

definition ref_yaml :: "string \<Rightarrow> error + pyval" where
  "ref_yaml s =
     (if s = [] then Inr PNone
      else if decimal s then Inr (PInt (int (decimal_value s)))
      else if s \<in> set [''yes'', ''Yes'', ''YES'', ''true'', ''True'', ''TRUE'', ''on'', ''On'', ''ON'']
        then Inr (PBool True)
      else if s \<in> set [''no'', ''No'', ''NO'', ''false'', ''False'', ''FALSE'', ''off'', ''Off'', ''OFF'']
        then Inr (PBool False)
      else if s \<in> set [''null'', ''Null'', ''NULL'', ''~''] then Inr PNone
      else if s \<in> set [''y'', ''Y'', ''n'', ''N''] then Inl not_modelled
      else if plain_word s then Inr (PStr s)
      else if double_quoted s then Inr (PStr (butlast (tl s)))
      else if hd s = CHR ''@'' \<and> list_all (\<lambda>c. c \<in> word_chars) (tl s)
        then Inl (ScannerError (Text ''found character that cannot start any token''))
      else Inl not_modelled)"

definition ref_libs :: libs where
  "ref_libs = \<lparr>py_str = ref_str, template_render = ref_render, yaml_load = ref_yaml\<rparr>"


subsection \<open>Properties of \<^verbatim>\<open>nested_render\<close>\<close>

text \<open>
  The example of the spec and of the docstring: \<^verbatim>\<open>redirect_uri\<close> refers to the
  top-level \<^verbatim>\<open>BASE_URL\<close> and resolves to its value.
\<close>

lemma nested_render_spec_example:
  "fst (nested_render ref_libs
     (PDict [(''BASE_URL'', PStr ''http://a''),
             (''OPENID_CONNECT'', PDict [(''fence'', PDict [(''client_kwargs'',
                PDict [(''redirect_uri'', PStr ''{{BASE_URL}}/x'')])])])])
     [] Map.empty)
   = Inr (PDict [(''BASE_URL'', PStr ''http://a''),
             (''OPENID_CONNECT'', PDict [(''fence'', PDict [(''client_kwargs'',
                PDict [(''redirect_uri'', PStr ''http://a/x'')])])])])"
  by code_simp

text \<open>
  C3. The document
  \<^verbatim>\<open>{A: root-a, Z: root-z, B: {C: {A: inner-a, L: '{{Z}}'}, D: {Z: inner-z, M: '{{A}}'}}}\<close>
  has a leaf \<^verbatim>\<open>M\<close> that refers to \<^verbatim>\<open>A\<close> and a leaf \<^verbatim>\<open>L\<close> that refers to \<^verbatim>\<open>Z\<close>, both
  defined at the top level, an ancestor scope of either leaf. When \<^verbatim>\<open>C\<close> is visited
  before \<^verbatim>\<open>D\<close>, leaving \<^verbatim>\<open>C\<close> pops its key \<^verbatim>\<open>A\<close> and with it the binding of the
  top-level \<^verbatim>\<open>A\<close>, so \<^verbatim>\<open>M\<close> renders to the empty text, which is parsed as \<^verbatim>\<open>None\<close>;
  when \<^verbatim>\<open>D\<close> is visited first the same happens to \<^verbatim>\<open>L\<close>. In neither order do both
  leaves resolve to the values of the variables they refer to.
\<close>

theorem nested_render_pops_ancestor_binding:
  "fst (nested_render ref_libs
     (PDict [(''A'', PStr ''root-a''), (''Z'', PStr ''root-z''),
        (''B'', PDict [(''C'', PDict [(''A'', PStr ''inner-a''), (''L'', PStr ''{{Z}}'')]),
                       (''D'', PDict [(''Z'', PStr ''inner-z''), (''M'', PStr ''{{A}}'')])])])
     [] Map.empty)
   = Inr (PDict [(''A'', PStr ''root-a''), (''Z'', PStr ''root-z''),
        (''B'', PDict [(''C'', PDict [(''A'', PStr ''inner-a''), (''L'', PStr ''root-z'')]),
                       (''D'', PDict [(''Z'', PStr ''inner-z''), (''M'', PNone)])])])
   \<and> fst (nested_render ref_libs
     (PDict [(''A'', PStr ''root-a''), (''Z'', PStr ''root-z''),
        (''B'', PDict [(''D'', PDict [(''Z'', PStr ''inner-z''), (''M'', PStr ''{{A}}'')]),
                       (''C'', PDict [(''A'', PStr ''inner-a''), (''L'', PStr ''{{Z}}'')])])])
     [] Map.empty)
   = Inr (PDict [(''A'', PStr ''root-a''), (''Z'', PStr ''root-z''),
        (''B'', PDict [(''D'', PDict [(''Z'', PStr ''inner-z''), (''M'', PStr ''root-a'')]),
                       (''C'', PDict [(''A'', PStr ''inner-a''), (''L'', PNone)])])])"
  by code_simp

text \<open>
  C8, as the code has it. A falsy value comes back as it is. A truthy value that
  is not a dict, whose string form \<open>s\<close> the template engine renders to \<open>s\<close> itself (as
  it does when \<open>s\<close> has no template markers), comes back as what the YAML parser
  makes of \<open>s\<close>, parsed once more in double quotes after a \<^verbatim>\<open>ScannerError\<close>. So it
  comes back unchanged when the parser reads \<open>s\<close> back as the value.
\<close>

theorem nested_render_marker_free_leaf:
  assumes "\<forall>d. v \<noteq> PDict d"
    and "truthy v \<longrightarrow> py_str L v = Inr s \<and> template_render L s r = Inr s"
  shows "fst (nested_render L v acc r) = (if truthy v then reparse L s else Inr v)
       \<and> (\<not> truthy v \<or> yaml_load L s = Inr v \<longrightarrow> fst (nested_render L v acc r) = Inr v)"
  using assms
  by (cases v) (auto simp: render_leaf_def reparse_def)

theorem nested_render_marker_free_leaf_witness:
  "fst (nested_render ref_libs (PStr ''http://a/user'') [] Map.empty) = Inr (PStr ''http://a/user'')"
proof -
  have a: "\<forall>d. PStr ''http://a/user'' \<noteq> PDict d" by simp
  have b: "truthy (PStr ''http://a/user'') \<longrightarrow>
      py_str ref_libs (PStr ''http://a/user'') = Inr ''http://a/user''
      \<and> template_render ref_libs ''http://a/user'' Map.empty = Inr ''http://a/user''"
    by code_simp
  have c: "yaml_load ref_libs ''http://a/user'' = Inr (PStr ''http://a/user'')"
    by code_simp
  from nested_render_marker_free_leaf [OF a b, of "[]"] c show ?thesis by blast
qed

text \<open>
  C8 as stated fails: the string \<^verbatim>\<open>'123'\<close> has no template marker and comes back
  as the integer 123.
\<close>

theorem nested_render_digits_counterexample:
  "fst (nested_render ref_libs (PStr ''123'') [] Map.empty) = Inr (PInt 123)
   \<and> template_render ref_libs ''123'' Map.empty = Inr ''123''"
  by code_simp

subsection \<open>What \<^verbatim>\<open>nested_render\<close> leaves in \<^verbatim>\<open>replacements\<close>\<close>

lemma pop_all_apply:
  "pop_all r cfg k = (if k \<in> fst ` set cfg then None else r k)"
  unfolding pop_all_def
  by (induction cfg arbitrary: r) (auto split: prod.splits)

lemma repl_update_other:
  "k \<notin> fst ` set cfg \<Longrightarrow> repl_update r cfg k = r k"
  unfolding repl_update_def
  by (induction cfg arbitrary: r) (auto split: prod.splits)

lemma repl_update_Cons:
  "repl_update r ((k, v) # cfg) = repl_update (r(k \<mapsto> v)) cfg"
  by (simp add: repl_update_def)

lemma repl_update_own:
  "distinct (map fst cfg) \<Longrightarrow> (k, v) \<in> set cfg \<Longrightarrow> repl_update r cfg k = Some v"
proof (induction cfg arbitrary: r)
  case Nil
  then show ?case by simp
next
  case (Cons kv cfg)
  obtain k' v' where kv: "kv = (k', v')" by (cases kv)
  show ?case
  proof (cases "kv = (k, v)")
    case True
    with Cons.prems have "k \<notin> fst ` set cfg" by auto
    from repl_update_other [OF this, of "r(k \<mapsto> v)"] True show ?thesis
      by (simp add: repl_update_Cons)
  next
    case False
    with Cons.prems have "distinct (map fst cfg)" and "(k, v) \<in> set cfg" by auto
    then have "repl_update (r(k' \<mapsto> v')) cfg k = Some v" by (rule Cons.IH)
    then show ?thesis by (simp only: kv repl_update_Cons)
  qed
qed

lemma pop_all_map_le:
  assumes "r1 \<subseteq>\<^sub>m repl_update r cfg"
  shows "pop_all r1 cfg \<subseteq>\<^sub>m r"
  unfolding map_le_def
proof
  fix k assume "k \<in> dom (pop_all r1 cfg)"
  then have nk: "k \<notin> fst ` set cfg" and d: "k \<in> dom r1"
    by (simp_all add: dom_def pop_all_apply split: if_splits)
  from assms d have "r1 k = repl_update r cfg k" by (simp add: map_le_def)
  with nk show "pop_all r1 cfg k = r k"
    by (simp add: pop_all_apply repl_update_other)
qed

text \<open>
  The libraries raise no \<^verbatim>\<open>AttributeError\<close> of their own, so that the handler of
  \<^verbatim>\<open>nested_render\<close> is entered only for a value that is not a dict.
\<close>

definition no_attribute_error :: "libs \<Rightarrow> bool" where
  "no_attribute_error L =
     ((\<forall>v m. py_str L v \<noteq> Inl (AttributeError m))
      \<and> (\<forall>s r m. template_render L s r \<noteq> Inl (AttributeError m))
      \<and> (\<forall>s m. yaml_load L s \<noteq> Inl (AttributeError m)))"

lemma render_leaf_no_attribute_error:
  "no_attribute_error L \<Longrightarrow> render_leaf L v r \<noteq> Inl (AttributeError m)"
  by (auto simp: no_attribute_error_def render_leaf_def reparse_def
        split: sum.splits error.splits)

text \<open>
  When \<^verbatim>\<open>nested_render\<close> returns, \<^verbatim>\<open>replacements\<close> holds no binding that it did not
  hold before the call: the variables of a block, and of the blocks below it, are
  not visible to what is rendered after the block. The keys of the block itself are
  gone, also those that an enclosing block had bound before.
\<close>

lemma nested_render_shrinks:
  "no_attribute_error L \<Longrightarrow>
     (\<forall>m. fst (nested_render L v acc r) \<noteq> Inl (AttributeError m))
       \<and> ((\<exists>w. fst (nested_render L v acc r) = Inr w) \<longrightarrow> snd (nested_render L v acc r) \<subseteq>\<^sub>m r)"
  "no_attribute_error L \<Longrightarrow>
     (\<forall>m. fst (render_items L cfg rest acc' r') \<noteq> Inl (AttributeError m))
       \<and> ((\<exists>w. fst (render_items L cfg rest acc' r') = Inr w)
            \<longrightarrow> snd (render_items L cfg rest acc' r') \<subseteq>\<^sub>m r')"
proof (induction L v acc r and L cfg rest acc' r' rule: nested_render_render_items.induct)
  case (1 L cfg fully_rendered_cfgs r)
  from 1(1) [OF 1(2)] show ?case
    by (auto split: prod.splits sum.splits error.splits)
next
  case (8 L cfg key "value" rest fully_rendered_cfgs r)
  obtain res r1 where nr: "nested_render L value [] (repl_update r cfg) = (res, r1)"
    by (cases "nested_render L value [] (repl_update r cfg)")
  note ih1 = 8(1) [OF 8(3)]
  show ?case
  proof (cases res)
    case (Inl e)
    with nr ih1 show ?thesis by auto
  next
    case (Inr v)
    from ih1 nr Inr have "r1 \<subseteq>\<^sub>m repl_update r cfg" by auto
    then have le: "pop_all r1 cfg \<subseteq>\<^sub>m r" by (rule pop_all_map_le)
    from 8(2) [OF nr [symmetric] Inr 8(3)] le nr Inr show ?thesis
      by (auto intro: map_le_trans)
  qed
qed (auto simp: render_leaf_no_attribute_error)

lemma nested_render_hides_block_variables:
  assumes "no_attribute_error L" and "fst (nested_render L v acc r) = Inr w" and "r k = None"
  shows "snd (nested_render L v acc r) k = None"
proof -
  from nested_render_shrinks(1) [OF assms(1), of v acc r] assms(2)
  have "snd (nested_render L v acc r) \<subseteq>\<^sub>m r" by auto
  with assms(3) show ?thesis
    by (cases "snd (nested_render L v acc r) k") (auto simp: map_le_def dom_def)
qed

subsection \<open>A block of leaves\<close>

text \<open>
  What the docstring says of a block, written out for a block whose values are all
  leaves: each value is rendered with the variables visible on entry and the block's
  own pairs over them, the first exception ends the rendering.
\<close>

fun is_leaf :: "pyval \<Rightarrow> bool" where
  "is_leaf (PDict d) = False"
| "is_leaf v = True"

fun render_block :: "libs \<Rightarrow> replacements \<Rightarrow> pydict \<Rightarrow> pydict \<Rightarrow> error + pydict" where
  "render_block L scope [] fully_rendered_cfgs = Inr fully_rendered_cfgs"
| "render_block L scope ((key, value) # rest) fully_rendered_cfgs =
     (case render_leaf L value scope of
        Inl e \<Rightarrow> Inl e
      | Inr v \<Rightarrow> render_block L scope rest (AList.update key v fully_rendered_cfgs))"

lemma repl_update_eq: "repl_update r cfg = r ++ map_of (rev cfg)"
proof (induction cfg arbitrary: r)
  case Nil
  then show ?case by (simp add: repl_update_def)
next
  case (Cons kv cfg)
  obtain k v where kv: "kv = (k, v)" by (cases kv)
  have "repl_update r (kv # cfg) = r(k \<mapsto> v) ++ map_of (rev cfg)"
    by (simp only: kv repl_update_Cons Cons.IH)
  also have "\<dots> = r ++ map_of (rev (kv # cfg))"
    by (rule ext) (simp add: kv map_add_def split: option.splits)
  finally show ?case .
qed

lemma repl_update_pop_all: "repl_update (pop_all r' cfg) cfg = repl_update r cfg"
  if "r' = repl_update r cfg"
proof (rule ext)
  fix k
  show "repl_update (pop_all r' cfg) cfg k = repl_update r cfg k"
  proof (cases "k \<in> fst ` set cfg")
    case True
    then have "map_of (rev cfg) k \<noteq> None"
      by (simp add: map_of_eq_None_iff)
    then show ?thesis by (auto simp: repl_update_eq map_add_def)
  next
    case False
    then show ?thesis by (simp add: repl_update_other pop_all_apply that)
  qed
qed

lemma nested_render_leaf: "is_leaf v \<Longrightarrow> nested_render L v acc r = (render_leaf L v r, r)"
  by (cases v) auto

lemma render_items_block:
  "list_all (\<lambda>(k, v). is_leaf v) rest \<Longrightarrow>
   fst (render_items L cfg rest acc r) = render_block L (repl_update r cfg) rest acc"
proof (induction rest arbitrary: acc r)
  case Nil
  then show ?case by simp
next
  case (Cons kv rest)
  obtain k v where kv: "kv = (k, v)" by (cases kv)
  from Cons.prems kv have lf: "is_leaf v" and rest: "list_all (\<lambda>(k, v). is_leaf v) rest"
    by auto
  show ?case
  proof (cases "render_leaf L v (repl_update r cfg)")
    case (Inl e)
    with lf show ?thesis by (simp add: kv nested_render_leaf)
  next
    case (Inr w)
    have "fst (render_items L cfg (kv # rest) acc r)
        = fst (render_items L cfg rest (AList.update k w acc) (pop_all (repl_update r cfg) cfg))"
      using lf Inr by (simp add: kv nested_render_leaf)
    also have "\<dots> = render_block L (repl_update (pop_all (repl_update r cfg) cfg) cfg) rest
        (AList.update k w acc)"
      by (rule Cons.IH [OF rest])
    also have "\<dots> = render_block L (repl_update r cfg) rest (AList.update k w acc)"
      by (simp add: repl_update_pop_all)
    finally show ?thesis using Inr by (simp add: kv)
  qed
qed

text \<open>
  So in a block of leaves every reference to a variable of the block, or to a
  variable visible on entry that the block does not redefine, resolves against that
  variable's value.
\<close>

lemma nested_render_block:
  assumes "list_all (\<lambda>(k, v). is_leaf v) cfg" and "no_attribute_error L"
  shows "fst (nested_render L (PDict cfg) acc r)
      = map_sum id PDict (render_block L (r ++ map_of (rev cfg)) cfg acc)"
proof -
  obtain res r1 where ri: "render_items L cfg cfg acc r = (res, r1)"
    by (cases "render_items L cfg cfg acc r")
  from render_items_block [OF assms(1), of L cfg acc r] ri
  have res: "res = render_block L (r ++ map_of (rev cfg)) cfg acc"
    by (simp add: repl_update_eq)
  from nested_render_shrinks(2) [OF assms(2), of cfg cfg acc r] ri
  have na: "\<forall>m. res \<noteq> Inl (AttributeError m)" by simp
  have "fst (nested_render L (PDict cfg) acc r) = map_sum id PDict res"
  proof (cases res)
    case (Inl e)
    with na have "\<forall>m. e \<noteq> AttributeError m" by simp
    with ri Inl show ?thesis by (cases e) auto
  next
    case (Inr d)
    with ri show ?thesis by simp
  qed
  with res show ?thesis by simp
qed

section \<open>The configuration object (\<^verbatim>\<open>fence/config.py\<close>, \<^verbatim>\<open>Config\<close> and \<^verbatim>\<open>FenceConfig\<close>)\<close>

text \<open>
  The state of a \<^verbatim>\<open>Config\<close> object is its dict \<^verbatim>\<open>_configs\<close>. A method that changes
  it returns the new dict; a method that only reads it returns its result.
\<close>

definition Config_init :: pydict where
  "Config_init = []"

definition Config_get :: "pydict \<Rightarrow> string \<Rightarrow> pyval \<Rightarrow> pyval" where
  "Config_get configs key dflt = (case map_of configs key of None \<Rightarrow> dflt | Some v \<Rightarrow> v)"

definition Config_set :: "pydict \<Rightarrow> string \<Rightarrow> pyval \<Rightarrow> pydict" where
  "Config_set configs key value = AList.update key value configs"

definition Config_setitem :: "pydict \<Rightarrow> string \<Rightarrow> pyval \<Rightarrow> pydict" where
  "Config_setitem configs key value = AList.update key value configs"

definition Config_contains :: "pydict \<Rightarrow> string \<Rightarrow> bool" where
  "Config_contains configs key = has_key configs key"

definition Config_iter :: "pydict \<Rightarrow> (string \<times> pyval) list" where
  "Config_iter configs = configs"

definition Config_getitem :: "pydict \<Rightarrow> string \<Rightarrow> error + pyval" where
  "Config_getitem configs key =
     (case map_of configs key of None \<Rightarrow> Inl (KeyError key) | Some v \<Rightarrow> Inr v)"

definition Config_delitem :: "pydict \<Rightarrow> string \<Rightarrow> error + pydict" where
  "Config_delitem configs key =
     (if has_key configs key then Inr (AList.delete key configs) else Inl (KeyError key))"

definition Config_len :: "pydict \<Rightarrow> nat" where
  "Config_len configs = length configs"

text \<open>\<^verbatim>\<open>update(*args, **kwargs)\<close> with one positional dict.\<close>

definition Config_update :: "pydict \<Rightarrow> pydict \<Rightarrow> pydict \<Rightarrow> pydict" where
  "Config_update configs other kwargs = dict_update (dict_update configs other) kwargs"

text \<open>
  \<^verbatim>\<open>_load_configuration_file\<close>: \<open>config\<close> is the parsed default document,
  \<open>provided\<close> the parsed provided one. The provided document is rendered first. A
  rendered document that is not a dict fails at \<^verbatim>\<open>key in provided_configurations\<close>
  when it is not iterable and the default has a key, and at \<^verbatim>\<open>.iteritems()\<close>
  otherwise. The result is the new \<^verbatim>\<open>_configs\<close> with the keys of the warning.
\<close>

definition Config_load_configuration_file :: "libs \<Rightarrow> pydict \<Rightarrow> pydict \<Rightarrow> pyval
    \<Rightarrow> error + pydict \<times> string list option" where
  "Config_load_configuration_file L configs config provided =
     (case fst (nested_render L provided [] Map.empty) of
        Inl e \<Rightarrow> Inl e
      | Inr (PDict provided_configurations) \<Rightarrow>
          (case merge_configuration config provided_configurations of
             (merged, warning) \<Rightarrow> Inr (dict_update configs merged, warning))
      | Inr (PStr s) \<Rightarrow> Inl (AttributeError ''iteritems'')
      | Inr (PList xs) \<Rightarrow> Inl (AttributeError ''iteritems'')
      | Inr v \<Rightarrow>
          if config \<noteq> [] then Inl (TypeError (Text ''argument is not iterable''))
          else Inl (AttributeError ''iteritems''))"

text \<open>
  \<^verbatim>\<open>FenceConfig._post_process\<close>. \<^verbatim>\<open>urlparse\<close> is a parameter that gives the scheme
  and the network location of a URL. The last line,
  \<^verbatim>\<open>cirrus.config.config.update(**self._configs.get("CIRRUS_CFG", {}))\<close>, raises
  \<^verbatim>\<open>TypeError\<close> when the value of \<^verbatim>\<open>CIRRUS_CFG\<close> is not a mapping. The writes to
  \<^verbatim>\<open>os.environ\<close> and to the configuration of cirrus themselves leave \<^verbatim>\<open>_configs\<close>
  as it is and are not part of the result.
\<close>

definition FenceConfig_post_process :: "(pyval \<Rightarrow> error + string \<times> string) \<Rightarrow> pydict
    \<Rightarrow> error + pydict" where
  "FenceConfig_post_process urlparse configs =
     (case (if \<not> has_key configs ''ROOT_URL''
            then (case map_of configs ''BASE_URL'' of
                    None \<Rightarrow> Inl (KeyError ''BASE_URL'')
                  | Some base \<Rightarrow>
                      (case urlparse base of
                         Inl e \<Rightarrow> Inl e
                       | Inr (scheme, netloc) \<Rightarrow>
                           Inr (AList.update ''ROOT_URL'' (PStr (scheme @ ''://'' @ netloc)) configs)))
            else Inr configs) of
        Inl e \<Rightarrow> Inl e
      | Inr configs1 \<Rightarrow>
          (let configs2 =
                 (if truthy (Config_get configs1 ''MOCK_STORAGE'' (PBool False))
                  then AList.update ''STORAGE_CREDENTIALS'' (PDict []) configs1
                  else configs1)
           in case Config_get configs2 ''CIRRUS_CFG'' (PDict []) of
                PDict cirrus_cfg \<Rightarrow> Inr configs2
              | other \<Rightarrow> Inl (TypeError (Text ''argument after ** must be a mapping''))))"

text \<open>
  \<^verbatim>\<open>load\<close>, with the configuration file already found and parsed (\<open>None\<close> when
  there is none).
\<close>

definition Config_load :: "libs \<Rightarrow> (pyval \<Rightarrow> error + string \<times> string) \<Rightarrow> pydict \<Rightarrow> pydict
    \<Rightarrow> pyval option \<Rightarrow> error + pydict" where
  "Config_load L urlparse configs config provided =
     (case provided of
        None \<Rightarrow> FenceConfig_post_process urlparse configs
      | Some p \<Rightarrow>
          (case Config_load_configuration_file L configs config p of
             Inl e \<Rightarrow> Inl e
           | Inr (configs', warning) \<Rightarrow> FenceConfig_post_process urlparse configs'))"

subsection \<open>Properties of the configuration object\<close>

text \<open>
  C7, as the code has it. The loaded configuration stays a mutable mapping:
  \<^verbatim>\<open>set\<close> and \<^verbatim>\<open>__setitem__\<close> bind the key to the value, \<^verbatim>\<open>__delitem__\<close> removes a key
  that is there, \<^verbatim>\<open>update\<close> overrides with the entries it is given, and each leaves
  every other key as it was. \<^verbatim>\<open>get\<close>, \<^verbatim>\<open>__getitem__\<close>, \<^verbatim>\<open>__contains__\<close>, \<^verbatim>\<open>__len__\<close> and
  \<^verbatim>\<open>__iter__\<close> only read it.
\<close>

theorem Config_mutators:
  "map_of (Config_set configs key value) = (map_of configs)(key \<mapsto> value)
   \<and> map_of (Config_setitem configs key value) = (map_of configs)(key \<mapsto> value)
   \<and> (has_key configs key \<longrightarrow>
        (\<exists>configs'. Config_delitem configs key = Inr configs'
           \<and> map_of configs' = (map_of configs)(key := None)))
   \<and> (distinct (map fst other) \<and> distinct (map fst kwargs) \<longrightarrow>
        map_of (Config_update configs other kwargs)
          = map_of configs ++ map_of other ++ map_of kwargs)"
  by (simp add: Config_set_def Config_setitem_def Config_delitem_def Config_update_def
        update_conv' delete_conv' map_of_dict_update)

theorem Config_mutators_witness:
  "map_of (Config_set [(''BASE_URL'', PStr ''http://a'')] ''BASE_URL'' (PStr ''http://b''))
     = [''BASE_URL'' \<mapsto> PStr ''http://b'']
   \<and> Config_delitem [(''BASE_URL'', PStr ''http://a'')] ''BASE_URL'' = Inr []"
proof -
  have h: "has_key [(''BASE_URL'', PStr ''http://a'')] ''BASE_URL''"
    by (simp add: has_key_def)
  from Config_mutators [of "[(''BASE_URL'', PStr ''http://a'')]" "''BASE_URL''"
      "PStr ''http://b''" "[]" "[]"] h
  show ?thesis by (auto simp: Config_delitem_def)
qed

text \<open>
  C7 as stated fails: after \<^verbatim>\<open>load\<close> has produced the configuration, \<^verbatim>\<open>set\<close> gives
  \<^verbatim>\<open>BASE_URL\<close> another value.
\<close>

theorem Config_set_after_load_counterexample:
  "Config_load ref_libs (\<lambda>u. Inl not_modelled) Config_init
     [(''BASE_URL'', PStr ''http://localhost''), (''ROOT_URL'', PStr ''http://localhost'')]
     (Some (PDict [(''BASE_URL'', PStr ''http://a/user'')]))
   = Inr [(''BASE_URL'', PStr ''http://a/user''), (''ROOT_URL'', PStr ''http://localhost'')]
   \<and> Config_get [(''BASE_URL'', PStr ''http://a/user''), (''ROOT_URL'', PStr ''http://localhost'')]
       ''BASE_URL'' PNone = PStr ''http://a/user''
   \<and> Config_get
       (Config_set [(''BASE_URL'', PStr ''http://a/user''), (''ROOT_URL'', PStr ''http://localhost'')]
          ''BASE_URL'' (PStr ''http://evil''))
       ''BASE_URL'' PNone = PStr ''http://evil''"
  by code_simp

section \<open>Token validation (\<^verbatim>\<open>fence/jwt/validate.py\<close>)\<close>

type_synonym claims = "string \<rightharpoonup> pyval"

text \<open>
  What \<^verbatim>\<open>validate_jwt\<close> calls outside its module: PyJWT's
  \<^verbatim>\<open>get_unverified_header\<close> and \<^verbatim>\<open>decode(token, verify=False)\<close>, the key lookup and the
  validation of authutils, and \<^verbatim>\<open>is_blacklisted\<close> of \<^verbatim>\<open>fence.jwt.blacklist\<close>. Each
  returns a value or raises.
\<close>

record jwt_env =
  get_unverified_header :: "string \<Rightarrow> error + (string \<rightharpoonup> pyval)"
  decode_unverified :: "string \<Rightarrow> error + claims"
  get_public_key :: "pyval \<Rightarrow> pyval \<Rightarrow> bool \<Rightarrow> error + string"
  authutils_validate_jwt ::
    "string \<Rightarrow> string set \<Rightarrow> string option \<Rightarrow> pyval list \<Rightarrow> string \<Rightarrow> error + claims"
  is_blacklisted :: "pyval \<Rightarrow> error + bool"

text \<open>
  The calls that reach the key registry and the blacklist, in the order in which
  they are made: \<open>KeyLookup kid iss attempt_refresh\<close> is
  \<^verbatim>\<open>get_public_key(kid, iss, attempt_refresh=...)\<close>.
\<close>

datatype call = KeyLookup pyval pyval bool | BlacklistLookup pyval

text \<open>\<^verbatim>\<open>s.split(c)\<close> for a separator of one character.\<close>

fun split_on :: "char \<Rightarrow> string \<Rightarrow> string list" where
  "split_on c [] = [[]]"
| "split_on c (x # xs) =
     (if x = c then [] # split_on c xs
      else (case split_on c xs of w # ws \<Rightarrow> (x # w) # ws | [] \<Rightarrow> [[x]]))"

text \<open>
  Lines 63 to 73: the token is the argument, or else the second word of the
  Authorization header.
\<close>

definition token_of :: "(string \<rightharpoonup> string) \<Rightarrow> string option \<Rightarrow> error + string" where
  "token_of hdrs encoded_token =
     (case encoded_token of
        Some t \<Rightarrow> Inr t
      | None \<Rightarrow>
          (case hdrs ''Authorization'' of
             None \<Rightarrow> Inl (JWTError (Text ''no authorization header provided''))
           | Some h \<Rightarrow>
               (case split_on CHR '' '' h of
                  a # b # rest \<Rightarrow> Inr b
                | _ \<Rightarrow> Inl (JWTError (Text ''could not parse authorization header'')))))"

definition validate_purpose :: "claims \<Rightarrow> string \<Rightarrow> error + unit" where
  "validate_purpose claims pur =
     (case claims ''pur'' of
        None \<Rightarrow> Inl (JWTPurposeError (Text ''claims missing `pur` claim''))
      | Some p \<Rightarrow>
          if \<not> py_eq p (PStr pur)
          then Inl (JWTPurposeError
                 (Fmt ''claims have incorrect purpose: expected {}, got {}'' [PStr pur, p]))
          else Inr ())"

text \<open>
  Lines 74 to 104 of \<^verbatim>\<open>validate_jwt\<close>: up to the claims that authutils returns. The
  handler of \<^verbatim>\<open>authutils.errors.JWTError\<close> reads the local variable \<^verbatim>\<open>claims\<close>, which
  has no value when the call has raised, so it raises \<^verbatim>\<open>UnboundLocalError\<close>. The
  \<^verbatim>\<open>public_key\<close> argument of \<^verbatim>\<open>validate_jwt\<close> is overwritten before it is read and
  is left out, as are the extra keyword arguments handed on to authutils.
\<close>

definition obtain_claims :: "jwt_env \<Rightarrow> config \<Rightarrow> (string \<rightharpoonup> string) \<Rightarrow> string option
    \<Rightarrow> string list option \<Rightarrow> string option \<Rightarrow> (error + claims) \<times> call list" where
  "obtain_claims env cfg hdrs encoded_token aud purpose =
     (case token_of hdrs encoded_token of
        Inl e \<Rightarrow> (Inl e, [])
      | Inr tok \<Rightarrow>
     (let aud' = (case aud of None \<Rightarrow> {''openid''}
                  | Some a \<Rightarrow> if a \<noteq> [] then set a else {''openid''})
      in case cfg ''BASE_URL'' of
        None \<Rightarrow> (Inl (KeyError ''BASE_URL''), [])
      | Some iss \<Rightarrow>
     (let oidc_iss = dict_get cfg ''OIDC_ISSUER'' PNone;
          issuers = (if truthy oidc_iss then [iss, oidc_iss] else [iss])
      in case get_unverified_header env tok of
        Inl (InvalidTokenError m) \<Rightarrow> (Inl (JWTError (Prefixed ''Invalid token : {}'' m)), [])
      | Inl e \<Rightarrow> (Inl e, [])
      | Inr token_headers \<Rightarrow>
     (case decode_unverified env tok of
        Inl e \<Rightarrow> (Inl e, [])
      | Inr unverified \<Rightarrow>
     (let token_iss = dict_get unverified ''iss'' PNone;
          kid = dict_get token_headers ''kid'' PNone;
          attempt_refresh = (\<not> py_eq token_iss iss);
          calls = [KeyLookup kid token_iss attempt_refresh]
      in case get_public_key env kid token_iss attempt_refresh of
        Inl e \<Rightarrow> (Inl e, calls)
      | Inr public_key \<Rightarrow>
     (case authutils_validate_jwt env tok aud' purpose issuers public_key of
        Inl (AuthutilsJWTError m) \<Rightarrow> (Inl (UnboundLocalError ''claims''), calls)
      | Inl e \<Rightarrow> (Inl e, calls)
      | Inr claims \<Rightarrow> (Inr claims, calls)))))))"

text \<open>Lines 105 to 119: the purpose and the blacklist.\<close>

definition check_claims :: "jwt_env \<Rightarrow> string option \<Rightarrow> claims \<Rightarrow> (error + claims) \<times> call list" where
  "check_claims env purpose claims =
     (case (case purpose of
              None \<Rightarrow> Inr ()
            | Some pur \<Rightarrow> if pur \<noteq> [] then validate_purpose claims pur else Inr ()) of
        Inl e \<Rightarrow> (Inl e, [])
      | Inr u \<Rightarrow>
     (case claims ''pur'' of
        None \<Rightarrow>
          (case claims ''jti'' of
             None \<Rightarrow> (Inl (KeyError ''jti''), [])
           | Some j \<Rightarrow> (Inl (JWTError (Fmt ''token {} missing purpose (`pur`) claim'' [j])), []))
      | Some p \<Rightarrow>
          if py_eq p (PStr ''refresh'') \<or> py_eq p (PStr ''api_key'') then
            (case claims ''jti'' of
               None \<Rightarrow> (Inl (KeyError ''jti''), [])
             | Some j \<Rightarrow>
                 (case is_blacklisted env j of
                    Inl e \<Rightarrow> (Inl e, [BlacklistLookup j])
                  | Inr b \<Rightarrow>
                      if b then (Inl (JWTError (Text ''token is blacklisted'')), [BlacklistLookup j])
                      else (Inr claims, [BlacklistLookup j])))
          else (Inr claims, [])))"

definition validate_jwt :: "jwt_env \<Rightarrow> config \<Rightarrow> (string \<rightharpoonup> string) \<Rightarrow> string option
    \<Rightarrow> string list option \<Rightarrow> string option \<Rightarrow> (error + claims) \<times> call list" where
  "validate_jwt env cfg hdrs encoded_token aud purpose =
     (case obtain_claims env cfg hdrs encoded_token aud purpose of
        (Inl e, calls) \<Rightarrow> (Inl e, calls)
      | (Inr claims, calls) \<Rightarrow>
          (case check_claims env purpose claims of (res, calls') \<Rightarrow> (res, calls @ calls')))"

text \<open>
  An environment for examples: every token has the key id \<^verbatim>\<open>key-01\<close> and carries
  the claims \<open>cl\<close>, every key is found, every signature is good, and the blacklist
  holds the token identifiers \<open>bl\<close>.
\<close>

definition example_env :: "claims \<Rightarrow> pyval list \<Rightarrow> jwt_env" where
  "example_env cl bl =
     \<lparr>get_unverified_header = (\<lambda>t. Inr [''kid'' \<mapsto> PStr ''key-01'']),
      decode_unverified = (\<lambda>t. Inr cl),
      get_public_key = (\<lambda>kid iss attempt_refresh. Inr ''public key''),
      authutils_validate_jwt = (\<lambda>t a p i k. Inr cl),
      is_blacklisted = (\<lambda>j. Inr (j \<in> set bl))\<rparr>"

subsection \<open>Properties of token validation\<close>

lemma py_eq_PStr: "py_eq v (PStr s) \<longleftrightarrow> v = PStr s"
  by (cases v) auto

text \<open>
  C1. When the claims of the token have no \<^verbatim>\<open>pur\<close> entry, \<^verbatim>\<open>validate_jwt\<close> raises
  and returns no claims, whether the verification of signature, issuer, audience and
  expiry has succeeded or has raised. When it has succeeded, the error is
  \<^verbatim>\<open>JWTPurposeError\<close> with the text \<^verbatim>\<open>claims missing `pur` claim\<close> if an expected
  purpose is given, and otherwise \<^verbatim>\<open>JWTError\<close> naming the token (or \<^verbatim>\<open>KeyError\<close> when
  there is no \<^verbatim>\<open>jti\<close> either). A purpose that is there and differs from the expected
  one gives another error, \<^verbatim>\<open>JWTPurposeError\<close> with the two purposes.
\<close>

theorem validate_jwt_requires_pur:
  assumes "\<forall>claims. fst (obtain_claims env cfg hdrs encoded_token aud purpose) = Inr claims
             \<longrightarrow> claims ''pur'' = None"
  shows "(\<exists>e. fst (validate_jwt env cfg hdrs encoded_token aud purpose) = Inl e)
     \<and> (\<forall>claims. fst (obtain_claims env cfg hdrs encoded_token aud purpose) = Inr claims
          \<longrightarrow> fst (validate_jwt env cfg hdrs encoded_token aud purpose)
              = Inl (if str_truthy purpose
                     then JWTPurposeError (Text ''claims missing `pur` claim'')
                     else (case claims ''jti'' of
                             None \<Rightarrow> KeyError ''jti''
                           | Some j \<Rightarrow>
                               JWTError (Fmt ''token {} missing purpose (`pur`) claim'' [j]))))
     \<and> (\<forall>c pur p. purpose = Some pur \<and> pur \<noteq> [] \<and> c ''pur'' = Some p \<and> p \<noteq> PStr pur
          \<longrightarrow> fst (check_claims env purpose c)
              = Inl (JWTPurposeError
                  (Fmt ''claims have incorrect purpose: expected {}, got {}'' [PStr pur, p])))"
proof -
  obtain res calls where oc: "obtain_claims env cfg hdrs encoded_token aud purpose = (res, calls)"
    by (cases "obtain_claims env cfg hdrs encoded_token aud purpose")
  have missing: "fst (check_claims env purpose c)
      = Inl (if str_truthy purpose
             then JWTPurposeError (Text ''claims missing `pur` claim'')
             else (case c ''jti'' of
                     None \<Rightarrow> KeyError ''jti''
                   | Some j \<Rightarrow> JWTError (Fmt ''token {} missing purpose (`pur`) claim'' [j])))"
    if "c ''pur'' = None" for c
    using that
    by (auto simp: check_claims_def validate_purpose_def str_truthy_def split: option.splits)
  have mismatch: "fst (check_claims env purpose c)
      = Inl (JWTPurposeError
          (Fmt ''claims have incorrect purpose: expected {}, got {}'' [PStr pur, p]))"
    if "purpose = Some pur" "pur \<noteq> []" "c ''pur'' = Some p" "p \<noteq> PStr pur" for c pur p
    using that by (simp add: check_claims_def validate_purpose_def py_eq_PStr)
  show ?thesis
  proof (cases res)
    case (Inl e)
    with oc mismatch show ?thesis by (auto simp: validate_jwt_def)
  next
    case (Inr claims)
    with oc assms have np: "claims ''pur'' = None" by simp
    have "fst (validate_jwt env cfg hdrs encoded_token aud purpose)
        = fst (check_claims env purpose claims)"
      using oc Inr by (simp add: validate_jwt_def split: prod.splits)
    with missing [of claims, OF np] oc Inr mismatch show ?thesis by auto
  qed
qed

theorem validate_jwt_requires_pur_witness:
  "fst (validate_jwt
     (example_env [''iss'' \<mapsto> PStr ''http://a'', ''jti'' \<mapsto> PStr ''t1''] [])
     [''BASE_URL'' \<mapsto> PStr ''http://a''] Map.empty (Some ''token'') None None)
   = Inl (JWTError (Fmt ''token {} missing purpose (`pur`) claim'' [PStr ''t1'']))
   \<and> fst (validate_jwt
     (example_env [''iss'' \<mapsto> PStr ''http://a'', ''jti'' \<mapsto> PStr ''t1''] [])
     [''BASE_URL'' \<mapsto> PStr ''http://a''] Map.empty (Some ''token'') None (Some ''access''))
   = Inl (JWTPurposeError (Text ''claims missing `pur` claim''))"
proof -
  let ?cl = "[''iss'' \<mapsto> PStr ''http://a'', ''jti'' \<mapsto> PStr ''t1'']"
  let ?env = "example_env ?cl []"
  let ?cfg = "[''BASE_URL'' \<mapsto> PStr ''http://a'']"
  have oc: "fst (obtain_claims ?env ?cfg Map.empty (Some ''token'') None p) = Inr ?cl" for p
    by (simp add: obtain_claims_def token_of_def example_env_def dict_get_def Let_def)
  have h: "\<forall>claims. fst (obtain_claims ?env ?cfg Map.empty (Some ''token'') None p) = Inr claims
             \<longrightarrow> claims ''pur'' = None" for p
    by (simp add: oc)
  from validate_jwt_requires_pur [OF h [of None]] oc [of None]
  have a: "fst (validate_jwt ?env ?cfg Map.empty (Some ''token'') None None)
      = Inl (JWTError (Fmt ''token {} missing purpose (`pur`) claim'' [PStr ''t1'']))"
    by (simp add: str_truthy_def)
  from validate_jwt_requires_pur [OF h [of "Some ''access''"]] oc [of "Some ''access''"]
  have b: "fst (validate_jwt ?env ?cfg Map.empty (Some ''token'') None (Some ''access''))
      = Inl (JWTPurposeError (Text ''claims missing `pur` claim''))"
    by (simp add: str_truthy_def)
  from a b show ?thesis by simp
qed

lemma obtain_claims_blacklist_free:
  "obtain_claims (env\<lparr>is_blacklisted := f\<rparr>) cfg hdrs encoded_token aud purpose
     = obtain_claims env cfg hdrs encoded_token aud purpose"
  by (simp add: obtain_claims_def Let_def
        cong: sum.case_cong option.case_cong error.case_cong)

lemma check_claims_other_purpose:
  assumes "c ''pur'' = Some q" and "q \<noteq> PStr ''refresh''" and "q \<noteq> PStr ''api_key''"
  shows "check_claims (env\<lparr>is_blacklisted := f\<rparr>) purpose c = check_claims env purpose c"
    and "fst (check_claims env purpose c) \<noteq> Inl (JWTError (Text ''token is blacklisted''))"
    and "snd (check_claims env purpose c) = []"
  using assms
  by (auto simp: check_claims_def validate_purpose_def py_eq_PStr split: option.splits)

text \<open>
  C2. A token that passes verification, whose purpose is \<^verbatim>\<open>refresh\<close> or \<^verbatim>\<open>api_key\<close>
  and whose \<^verbatim>\<open>jti\<close> is blacklisted, is rejected by \<^verbatim>\<open>validate_jwt\<close>: with
  \<^verbatim>\<open>token is blacklisted\<close> when no purpose is expected or the expected one is the
  token's, and with the purpose error otherwise. For a token that passes
  verification with any other purpose, \<^verbatim>\<open>validate_jwt\<close> does not ask the blacklist:
  its result is the same whatever the blacklist holds, also when the token's
  \<^verbatim>\<open>jti\<close> is in it, and it is never the blacklist error.
\<close>

theorem validate_jwt_blacklisted:
  "(fst (obtain_claims env cfg hdrs encoded_token aud purpose) = Inr claims
      \<and> claims ''pur'' = Some (PStr p) \<and> (p = ''refresh'' \<or> p = ''api_key'')
      \<and> claims ''jti'' = Some j \<and> is_blacklisted env j = Inr True
    \<longrightarrow> (\<exists>e. fst (validate_jwt env cfg hdrs encoded_token aud purpose) = Inl e)
        \<and> (\<not> str_truthy purpose \<or> purpose = Some p
            \<longrightarrow> fst (validate_jwt env cfg hdrs encoded_token aud purpose)
                = Inl (JWTError (Text ''token is blacklisted''))))
   \<and> (fst (obtain_claims env cfg hdrs encoded_token aud purpose) = Inr claims
      \<and> claims ''pur'' = Some q \<and> q \<noteq> PStr ''refresh'' \<and> q \<noteq> PStr ''api_key''
    \<longrightarrow> validate_jwt (env\<lparr>is_blacklisted := f\<rparr>) cfg hdrs encoded_token aud purpose
          = validate_jwt env cfg hdrs encoded_token aud purpose
        \<and> fst (validate_jwt env cfg hdrs encoded_token aud purpose)
            \<noteq> Inl (JWTError (Text ''token is blacklisted''))
        \<and> (\<forall>x. BlacklistLookup x
              \<notin> set (snd (validate_jwt env cfg hdrs encoded_token aud purpose))))"
proof (intro conjI impI)
  assume a: "fst (obtain_claims env cfg hdrs encoded_token aud purpose) = Inr claims
      \<and> claims ''pur'' = Some (PStr p) \<and> (p = ''refresh'' \<or> p = ''api_key'')
      \<and> claims ''jti'' = Some j \<and> is_blacklisted env j = Inr True"
  then obtain calls where oc:
    "obtain_claims env cfg hdrs encoded_token aud purpose = (Inr claims, calls)"
    by (cases "obtain_claims env cfg hdrs encoded_token aud purpose") auto
  have v: "fst (validate_jwt env cfg hdrs encoded_token aud purpose)
      = fst (check_claims env purpose claims)"
    using oc by (simp add: validate_jwt_def split: prod.splits)
  have "\<exists>e. fst (check_claims env purpose claims) = Inl e"
    using a
    by (auto simp: check_claims_def validate_purpose_def py_eq_PStr split: option.splits)
  with v show "\<exists>e. fst (validate_jwt env cfg hdrs encoded_token aud purpose) = Inl e"
    by simp
  assume "\<not> str_truthy purpose \<or> purpose = Some p"
  then have "fst (check_claims env purpose claims)
      = Inl (JWTError (Text ''token is blacklisted''))"
    using a
    by (auto simp: check_claims_def validate_purpose_def py_eq_PStr str_truthy_def
          split: option.splits)
  with v show "fst (validate_jwt env cfg hdrs encoded_token aud purpose)
      = Inl (JWTError (Text ''token is blacklisted''))"
    by simp
next
  assume b: "fst (obtain_claims env cfg hdrs encoded_token aud purpose) = Inr claims
      \<and> claims ''pur'' = Some q \<and> q \<noteq> PStr ''refresh'' \<and> q \<noteq> PStr ''api_key''"
  then obtain calls where oc:
    "obtain_claims env cfg hdrs encoded_token aud purpose = (Inr claims, calls)"
    by (cases "obtain_claims env cfg hdrs encoded_token aud purpose") auto
  from b have q: "claims ''pur'' = Some q" "q \<noteq> PStr ''refresh''" "q \<noteq> PStr ''api_key''"
    by simp_all
  note cc = check_claims_other_purpose [where c = claims and q = q, OF q]
  have v: "validate_jwt env cfg hdrs encoded_token aud purpose
      = (fst (check_claims env purpose claims), calls)"
    using oc cc(3) [where env = env and purpose = purpose]
    by (cases "check_claims env purpose claims") (simp add: validate_jwt_def)
  have v': "validate_jwt (env\<lparr>is_blacklisted := f\<rparr>) cfg hdrs encoded_token aud purpose
      = (fst (check_claims env purpose claims), calls)"
    using oc cc(1) [where env = env and f = f and purpose = purpose]
      cc(3) [where env = env and purpose = purpose]
    by (cases "check_claims env purpose claims")
       (simp add: validate_jwt_def obtain_claims_blacklist_free)
  from v v' show "validate_jwt (env\<lparr>is_blacklisted := f\<rparr>) cfg hdrs encoded_token aud purpose
      = validate_jwt env cfg hdrs encoded_token aud purpose"
    by simp
  from v cc(2) [where env = env and purpose = purpose]
  show "fst (validate_jwt env cfg hdrs encoded_token aud purpose)
      \<noteq> Inl (JWTError (Text ''token is blacklisted''))"
    by simp
  have "BlacklistLookup x \<notin> set calls" for x
    using oc
    by (auto simp: obtain_claims_def Let_def split: option.splits sum.splits error.splits)
  with v show "\<forall>x. BlacklistLookup x
      \<notin> set (snd (validate_jwt env cfg hdrs encoded_token aud purpose))"
    by simp
qed

theorem validate_jwt_blacklisted_witness:
  "fst (validate_jwt
     (example_env [''iss'' \<mapsto> PStr ''http://a'', ''jti'' \<mapsto> PStr ''t1'',
                   ''pur'' \<mapsto> PStr ''refresh''] [PStr ''t1''])
     [''BASE_URL'' \<mapsto> PStr ''http://a''] Map.empty (Some ''token'') None (Some ''refresh''))
   = Inl (JWTError (Text ''token is blacklisted''))
   \<and> is_blacklisted
     (example_env [''iss'' \<mapsto> PStr ''http://a'', ''jti'' \<mapsto> PStr ''t1'',
                   ''pur'' \<mapsto> PStr ''access''] [PStr ''t1'']) (PStr ''t1'') = Inr True
   \<and> fst (validate_jwt
     (example_env [''iss'' \<mapsto> PStr ''http://a'', ''jti'' \<mapsto> PStr ''t1'',
                   ''pur'' \<mapsto> PStr ''access''] [PStr ''t1''])
     [''BASE_URL'' \<mapsto> PStr ''http://a''] Map.empty (Some ''token'') None None)
   = Inr [''iss'' \<mapsto> PStr ''http://a'', ''jti'' \<mapsto> PStr ''t1'', ''pur'' \<mapsto> PStr ''access'']
   \<and> fst (validate_jwt
     (example_env [''iss'' \<mapsto> PStr ''http://a'', ''jti'' \<mapsto> PStr ''t1'',
                   ''pur'' \<mapsto> PStr ''access''] [PStr ''t1''])
     [''BASE_URL'' \<mapsto> PStr ''http://a''] Map.empty (Some ''token'') None None)
   \<noteq> Inl (JWTError (Text ''token is blacklisted''))"
proof -
  let ?cfg = "[''BASE_URL'' \<mapsto> PStr ''http://a'']"
  let ?cr = "[''iss'' \<mapsto> PStr ''http://a'', ''jti'' \<mapsto> PStr ''t1'',
              ''pur'' \<mapsto> PStr ''refresh'']"
  let ?er = "example_env ?cr [PStr ''t1'']"
  let ?ca = "[''iss'' \<mapsto> PStr ''http://a'', ''jti'' \<mapsto> PStr ''t1'',
              ''pur'' \<mapsto> PStr ''access'']"
  let ?ea = "example_env ?ca [PStr ''t1'']"
  have r: "fst (obtain_claims ?er ?cfg Map.empty (Some ''token'') None (Some ''refresh''))
        = Inr ?cr
      \<and> ?cr ''pur'' = Some (PStr ''refresh'')
      \<and> (''refresh'' = ''refresh'' \<or> ''refresh'' = ''api_key'')
      \<and> ?cr ''jti'' = Some (PStr ''t1'') \<and> is_blacklisted ?er (PStr ''t1'') = Inr True"
    by (simp add: obtain_claims_def token_of_def example_env_def dict_get_def Let_def)
  from validate_jwt_blacklisted
    [of ?er ?cfg Map.empty "Some ''token''" None "Some ''refresh''" ?cr "''refresh''"
        "PStr ''t1''"] r
  have one: "fst (validate_jwt ?er ?cfg Map.empty (Some ''token'') None (Some ''refresh''))
      = Inl (JWTError (Text ''token is blacklisted''))"
    by blast
  have a: "fst (obtain_claims ?ea ?cfg Map.empty (Some ''token'') None None) = Inr ?ca
      \<and> ?ca ''pur'' = Some (PStr ''access'')
      \<and> PStr ''access'' \<noteq> PStr ''refresh'' \<and> PStr ''access'' \<noteq> PStr ''api_key''"
    by (simp add: obtain_claims_def token_of_def example_env_def dict_get_def Let_def)
  note other = validate_jwt_blacklisted
    [of ?ea ?cfg Map.empty "Some ''token''" None None ?ca "''refresh''" "PStr ''t1''"
        "PStr ''access''" "\<lambda>j. Inr False",
     THEN conjunct2, THEN mp, OF a]
  have two: "fst (validate_jwt ?ea ?cfg Map.empty (Some ''token'') None None)
      \<noteq> Inl (JWTError (Text ''token is blacklisted''))"
    by (rule other [THEN conjunct2, THEN conjunct1])
  have bl: "is_blacklisted ?ea (PStr ''t1'') = Inr True"
    by (simp add: example_env_def)
  have acc: "fst (validate_jwt ?ea ?cfg Map.empty (Some ''token'') None None) = Inr ?ca"
    by (simp add: validate_jwt_def obtain_claims_def check_claims_def token_of_def
          example_env_def dict_get_def Let_def)
  from one bl acc two show ?thesis by simp
qed



end
